theory Spec2Isabelle
  imports Complex_Main "HOL-Library.Char_ord" "HOL-Library.List_Lexorder"
begin

section \<open>Data model\<close>

text \<open>
  Identifiers are the UUID strings of the store; dates are \<open>Date.getTime()\<close> values
  (milliseconds since the epoch). Money is kept as exact rationals: the store holds
  decimals and the services convert them with \<open>decimalToNumber\<close>; the rounding of binary
  floating point is not part of this model.
\<close>

type_synonym ident = string
type_synonym date = int
type_synonym AccountSubType = string

datatype AccountType = ASSET | LIABILITY | EQUITY | REVENUE | EXPENSE

datatype JournalSource = MANUAL | INVOICE | BILL | CUSTOMER_PAYMENT | BILL_PAYMENT | BANK_IMPORT

record Account =
  account_id :: ident
  account_companyId :: ident
  code :: string
  name :: string
  account_type :: AccountType
  subType :: AccountSubType
  parentId :: "ident option"
  description :: "string option"
  isSystemAccount :: bool
  isActive :: bool
  openingBalance :: rat

text \<open>
  One record serves for \<open>JournalLineInput\<close> and for the stored line: the input carries
  exactly the fields that \<open>lines.create\<close> copies.
\<close>

record JournalLine =
  accountId :: ident
  debit :: rat
  credit :: rat
  line_memo :: "string option"
  customerId :: "ident option"
  vendorId :: "ident option"

record JournalEntry =
  entry_id :: ident
  entry_companyId :: ident
  entryNumber :: int
  date :: date
  memo :: "string option"
  reference :: "string option"
  source :: JournalSource
  sourceId :: "ident option"
  isAdjusting :: bool
  isPosted :: bool
  isReversing :: bool
  reversedEntryId :: "ident option"
  createdById :: ident
  lines :: "JournalLine list"

text \<open>The store: the two tables the ledger core reads and writes, in row order.\<close>

record Store =
  accountRows :: "Account list"
  journalEntryRows :: "JournalEntry list"

text \<open>
  The error classes of \<open>utils/errors\<close>. A message is kept as the throw site together with
  the values its template interpolates.
\<close>

datatype message =
    JournalEntryNotFound
  | DebitsMustEqualCredits rat rat
  | LineBothDebitAndCredit
  | LineNeitherDebitNorCredit
  | AccountsNotFound
  | AccountInactive string
  | OnlyManualEdited
  | OnlyManualVoided
  | AccountNotFound
  | AccountCodeExists
  | CannotModifySystemAccount
  | OwnParent
  | ParentNotFound
  | ParentTypeMismatch
  | CircularParentReference
  | SystemAccountNotFound AccountSubType
  | CompanyAlreadyHasAccounts

datatype error = NotFoundError message | BadRequestError message | ConflictError message

text \<open>
  Modelled from the spec: the column defaults of the journal entry table are declared in
  the database schema, which is not among the sources. A created entry counts toward
  balances (\<open>isPosted = true\<close>) and is no reversal unless the caller says so.
\<close>

definition isPosted_default :: bool where
  "isPosted_default = True"


definition isAdjusting_default :: bool where
  "isAdjusting_default = False"

text \<open>\<open>x || 0\<close> on a number: zero stays zero, every other number is kept.\<close>

definition orZero :: "'a::zero \<Rightarrow> 'a" where
  "orZero x = (if x = 0 then 0 else x)"

section \<open>JournalService\<close>




text \<open>
  The next entry number: the tenant's entry with the greatest number
  (\<open>findFirst ... orderBy entryNumber desc\<close>), then \<open>(lastEntry?.entryNumber || 0) + 1\<close>.
\<close>

definition lastEntryNumber :: "Store \<Rightarrow> ident \<Rightarrow> int option" where
  "lastEntryNumber db companyId =
     (case map entryNumber (filter (\<lambda>e. entry_companyId e = companyId) (journalEntryRows db)) of
        [] \<Rightarrow> None
      | n # ns \<Rightarrow> Some (fold max ns n))"

definition nextEntryNumber :: "Store \<Rightarrow> ident \<Rightarrow> int" where
  "nextEntryNumber db companyId =
     (case lastEntryNumber db companyId of None \<Rightarrow> 0 | Some n \<Rightarrow> orZero n) + 1"


definition insertEntry :: "Store \<Rightarrow> JournalEntry \<Rightarrow> Store" where
  "insertEntry db e = db\<lparr>journalEntryRows := journalEntryRows db @ [e]\<rparr>"









text \<open>\<open>voidJournalEntry\<close>: only manual entries; the row stays, with \<open>isPosted = false\<close>.\<close>

definition findEntry :: "Store \<Rightarrow> ident \<Rightarrow> ident \<Rightarrow> JournalEntry option" where
  "findEntry db entryId companyId =
     find (\<lambda>e. entry_id e = entryId \<and> entry_companyId e = companyId) (journalEntryRows db)"

definition voidJournalEntry :: "Store \<Rightarrow> ident \<Rightarrow> ident \<Rightarrow> (error + unit) \<times> Store" where
  "voidJournalEntry db companyId entryId =
     (case findEntry db entryId companyId of
        None \<Rightarrow> (Inl (NotFoundError JournalEntryNotFound), db)
      | Some entry \<Rightarrow>
          if source entry \<noteq> MANUAL then (Inl (BadRequestError OnlyManualVoided), db)
          else (Inr (),
                db\<lparr>journalEntryRows :=
                     map (\<lambda>e. if entry_id e = entryId then e\<lparr>isPosted := False\<rparr> else e)
                       (journalEntryRows db)\<rparr>))"

text \<open>Decimal rendering of an integer, as a template string interpolates it.\<close>

definition digitChar :: "nat \<Rightarrow> char" where
  "digitChar n = ''0123456789'' ! n"

fun showNat :: "nat \<Rightarrow> string" where
  "showNat n =
     (if n < 10 then [digitChar n] else showNat (n div 10) @ [digitChar (n mod 10)])"

definition showInt :: "int \<Rightarrow> string" where
  "showInt i = (if i < 0 then ''-'' @ showNat (nat (- i)) else showNat (nat i))"

definition swapLine :: "JournalLine \<Rightarrow> JournalLine" where
  "swapLine line =
     \<lparr>accountId = accountId line, debit = credit line, credit = debit line,
      line_memo = line_memo line, customerId = customerId line, vendorId = vendorId line\<rparr>"

text \<open>
  \<open>reverseJournalEntry\<close>. \<open>now\<close> is the clock reading that \<open>new Date()\<close> would give when
  no \<open>reverseDate\<close> is passed.
\<close>

definition reverseJournalEntry ::
  "Store \<Rightarrow> ident \<Rightarrow> ident \<Rightarrow> ident \<Rightarrow> date option \<Rightarrow> date \<Rightarrow> ident
     \<Rightarrow> (error + JournalEntry) \<times> Store" where
  "reverseJournalEntry db companyId userId entryId reverseDate now newId =
     (case findEntry db entryId companyId of
        None \<Rightarrow> (Inl (NotFoundError JournalEntryNotFound), db)
      | Some entry \<Rightarrow>
          (let reversingEntry =
                 \<lparr>entry_id = newId, entry_companyId = companyId,
                  entryNumber = nextEntryNumber db companyId,
                  date = (case reverseDate of Some d \<Rightarrow> d | None \<Rightarrow> now),
                  memo = Some (''Reversal of Entry #'' @ showInt (entryNumber entry)),
                  reference = reference entry, source = MANUAL, sourceId = None,
                  isAdjusting = isAdjusting_default, isPosted = isPosted_default,
                  isReversing = True, reversedEntryId = Some (entry_id entry),
                  createdById = userId, lines = map swapLine (lines entry)\<rparr>
           in (Inr reversingEntry, insertEntry db reversingEntry)))"

section \<open>Balances\<close>

text \<open>
  A query on the line table with a condition on the line and one on the entry it
  belongs to; \<open>_sum\<close> of a column over no rows is null, which \<open>decimalToNumber\<close> turns
  into 0, as \<open>sum_list\<close> of the empty list is.
\<close>

definition journalLinesWhere ::
  "Store \<Rightarrow> (JournalLine \<Rightarrow> bool) \<Rightarrow> (JournalEntry \<Rightarrow> bool) \<Rightarrow> JournalLine list" where
  "journalLinesWhere db lineP entryP =
     concat (map (\<lambda>e. filter lineP (lines e)) (filter entryP (journalEntryRows db)))"

definition findUniqueAccount :: "Store \<Rightarrow> ident \<Rightarrow> Account option" where
  "findUniqueAccount db aid = find (\<lambda>a. account_id a = aid) (accountRows db)"

definition calculateAccountBalanceAsOf :: "Store \<Rightarrow> ident \<Rightarrow> AccountType \<Rightarrow> date \<Rightarrow> rat" where
  "calculateAccountBalanceAsOf db aid type asOfDate =
     (let opening = (case findUniqueAccount db aid of Some a \<Rightarrow> openingBalance a | None \<Rightarrow> 0);
          result = journalLinesWhere db (\<lambda>l. accountId l = aid)
                     (\<lambda>e. isPosted e \<and> date e \<le> asOfDate);
          debits = sum_list (map debit result);
          credits = sum_list (map credit result)
      in if type \<in> set [ASSET, EXPENSE] then opening + debits - credits
         else opening + credits - debits)"


text \<open>The part of column \<open>f\<close> of an entry that falls on account \<open>aid\<close>.\<close>

definition entryPart :: "(JournalLine \<Rightarrow> rat) \<Rightarrow> ident \<Rightarrow> JournalEntry \<Rightarrow> rat" where
  "entryPart f aid e = (\<Sum>l\<leftarrow>lines e. if accountId l = aid then f l else 0)"

text \<open>The same, with the sign of the normal side of an account of type \<open>t\<close>.\<close>

definition signedPart :: "AccountType \<Rightarrow> ident \<Rightarrow> JournalEntry \<Rightarrow> rat" where
  "signedPart t aid e =
     (if t \<in> set [ASSET, EXPENSE] then entryPart debit aid e - entryPart credit aid e
      else entryPart credit aid e - entryPart debit aid e)"



section \<open>ReportService\<close>












subsection \<open>Aging buckets\<close>

record AgingBucket =
  period :: string
  amount :: rat
  bucket_count :: nat

text \<open>
  \<open>buildAgingBuckets\<close>. With no periods, \<open>periods[periods.length - 1]\<close> is undefined and
  the template prints it as such.
\<close>

definition buildAgingBuckets :: "int list \<Rightarrow> AgingBucket list" where
  "buildAgingBuckets periods =
     \<lparr>period = ''Current'', amount = 0, bucket_count = 0\<rparr> #
     map (\<lambda>i. let startDay = (if i = 0 then 1 else periods ! (i - 1) + 1);
                  endDay = periods ! i
              in \<lparr>period = showInt startDay @ ''-'' @ showInt endDay @ '' days'',
                  amount = 0, bucket_count = 0\<rparr>)
       [0 ..< length periods]
     @ [\<lparr>period = ''Over '' @ (if periods = [] then ''undefined''
                                 else showInt (periods ! (length periods - 1))) @ '' days'',
         amount = 0, bucket_count = 0\<rparr>]"

text \<open>The \<open>for\<close> loop of \<open>getBucketIndex\<close>, from index \<open>i\<close> on.\<close>

function bucketLoop :: "int \<Rightarrow> int list \<Rightarrow> nat \<Rightarrow> nat" where
  "bucketLoop daysOverdue periods i =
     (if i < length periods
      then (if daysOverdue \<le> periods ! i then i + 1 else bucketLoop daysOverdue periods (i + 1))
      else length periods + 1)"
  by pat_completeness auto
termination
  by (relation "measure (\<lambda>(d, periods, i). length periods - i)") auto

definition getBucketIndex :: "int \<Rightarrow> int list \<Rightarrow> nat" where
  "getBucketIndex daysOverdue periods =
     (if daysOverdue \<le> 0 then 0 else bucketLoop daysOverdue periods 0)"

text \<open>
  What the aging reports compute for one open item: whole days between due date and
  as-of date, and the label of the bucket the item is added to.
\<close>

definition daysOverdueOf :: "date \<Rightarrow> date \<Rightarrow> int" where
  "daysOverdueOf asOfDate dueDate = (asOfDate - dueDate) div (1000 * 60 * 60 * 24)"

definition bucketLabel :: "int \<Rightarrow> int list \<Rightarrow> string" where
  "bucketLabel daysOverdue periods =
     period (buildAgingBuckets periods ! getBucketIndex daysOverdue periods)"

subsection \<open>Ledgers on which the statements balance\<close>









section \<open>AccountService\<close>











subsection \<open>The default chart of accounts\<close>








section \<open>Example ledger\<close>

text \<open>
  A tenant with a cash account (opening balance 1000) and a sales account, and a sale
  of 500 on 2024-01-10 (dates in milliseconds since the epoch).
\<close>

definition mkLine :: "ident \<Rightarrow> rat \<Rightarrow> rat \<Rightarrow> JournalLine" where
  "mkLine aid d c =
     \<lparr>accountId = aid, debit = d, credit = c, line_memo = None, customerId = None, vendorId = None\<rparr>"

definition mkAccount :: "ident \<Rightarrow> string \<Rightarrow> string \<Rightarrow> AccountType \<Rightarrow> AccountSubType \<Rightarrow> rat \<Rightarrow> Account" where
  "mkAccount aid c n t s ob =
     \<lparr>account_id = aid, account_companyId = ''t1'', code = c, name = n, account_type = t,
      subType = s, parentId = None, description = None, isSystemAccount = False,
      isActive = True, openingBalance = ob\<rparr>"

definition exCash :: Account where
  "exCash = mkAccount ''cash'' ''1000'' ''Cash'' ASSET ''CASH'' 1000"

definition exSales :: Account where
  "exSales = mkAccount ''sales'' ''4000'' ''Sales'' REVENUE ''INCOME'' 0"





definition exSaleEntry :: JournalEntry where
  "exSaleEntry =
     \<lparr>entry_id = ''e1'', entry_companyId = ''t1'', entryNumber = 1, date = 1704844800000,
      memo = None, reference = None, source = MANUAL, sourceId = None, isAdjusting = False,
      isPosted = True, isReversing = False, reversedEntryId = None, createdById = ''u1'',
      lines = [mkLine ''cash'' 500 0, mkLine ''sales'' 0 500]\<rparr>"

text \<open>The ledger after the sale is posted, and after that entry is voided.\<close>

definition exLedger1 :: Store where
  "exLedger1 = \<lparr>accountRows = [exCash, exSales], journalEntryRows = [exSaleEntry]\<rparr>"

definition exLedgerVoided :: Store where
  "exLedgerVoided =
     \<lparr>accountRows = [exCash, exSales], journalEntryRows = [exSaleEntry\<lparr>isPosted := False\<rparr>]\<rparr>"

text \<open>The reversal of the sale, dated 2024-02-01.\<close>

definition exReversal :: JournalEntry where
  "exReversal =
     \<lparr>entry_id = ''e2'', entry_companyId = ''t1'', entryNumber = 2, date = 1706745600000,
      memo = Some ''Reversal of Entry #1'', reference = None, source = MANUAL, sourceId = None,
      isAdjusting = False, isPosted = True, isReversing = True, reversedEntryId = Some ''e1'',
      createdById = ''u1'', lines = [mkLine ''cash'' 0 500, mkLine ''sales'' 500 0]\<rparr>"


















section \<open>Posting validation\<close>

lemma orZero_id [simp]: "orZero x = x"
  by (simp add: orZero_def)








section \<open>Aging buckets\<close>

declare bucketLoop.simps [simp del]

declare showNat.simps [simp del]

lemma bucketLoop_hit:
  "i \<le> k \<Longrightarrow> k < length ps \<Longrightarrow> d \<le> ps ! k \<Longrightarrow> (\<forall>j. i \<le> j \<and> j < k \<longrightarrow> ps ! j < d)
     \<Longrightarrow> bucketLoop d ps i = k + 1"
proof (induction d ps i rule: bucketLoop.induct)
  case (1 d ps i)
  show ?case
  proof (cases "d \<le> ps ! i")
    case True
    have "\<not> i < k"
    proof
      assume "i < k"
      with "1.prems" have "ps ! i < d" by simp
      with True show False by simp
    qed
    with "1.prems" have "i = k" by simp
    with True "1.prems" show ?thesis by (subst bucketLoop.simps) simp
  next
    case False
    with "1.prems" have "i \<noteq> k" by auto
    with 1 False show ?thesis by (subst bucketLoop.simps) auto
  qed
qed

lemma bucketLoop_miss:
  "(\<forall>j. i \<le> j \<and> j < length ps \<longrightarrow> ps ! j < d) \<Longrightarrow> bucketLoop d ps i = length ps + 1"
proof (induction d ps i rule: bucketLoop.induct)
  case (1 d ps i)
  then show ?case by (subst bucketLoop.simps) auto
qed

lemma bucketLoop_result:
  "bucketLoop d ps i = k + 1 \<Longrightarrow> k < length ps
     \<Longrightarrow> i \<le> k \<and> d \<le> ps ! k \<and> (\<forall>j. i \<le> j \<and> j < k \<longrightarrow> ps ! j < d)"
proof (induction d ps i rule: bucketLoop.induct)
  case (1 d ps i)
  show ?case
  proof (cases "i < length ps \<and> \<not> d \<le> ps ! i")
    case True
    with 1 have "bucketLoop d ps (i + 1) = k + 1" by (subst (asm) bucketLoop.simps) simp
    with 1 True have ih: "i + 1 \<le> k \<and> d \<le> ps ! k \<and> (\<forall>j. i + 1 \<le> j \<and> j < k \<longrightarrow> ps ! j < d)"
      by blast
    have "ps ! j < d" if "i \<le> j" "j < k" for j
    proof (cases "j = i")
      case True with \<open>i < length ps \<and> \<not> d \<le> ps ! i\<close> show ?thesis by simp
    next
      case False with that ih show ?thesis by simp
    qed
    with ih show ?thesis by simp
  next
    case False
    with 1(2,3) show ?thesis by (subst (asm) bucketLoop.simps) (auto split: if_splits)
  qed
qed

lemma bucketLoop_le: "bucketLoop d ps i \<le> max (i + 1) (length ps + 1)"
proof (induction d ps i rule: bucketLoop.induct)
  case (1 d ps i)
  then show ?case by (subst bucketLoop.simps) (auto simp: max_def split: if_splits)
qed

lemma buckets_length: "length (buildAgingBuckets ps) = length ps + 2"
  by (simp add: buildAgingBuckets_def)

lemma buckets_first: "period (buildAgingBuckets ps ! 0) = ''Current''"
  by (simp add: buildAgingBuckets_def)

lemma buckets_range:
  "i < length ps \<Longrightarrow> period (buildAgingBuckets ps ! (i + 1)) =
     showInt (if i = 0 then 1 else ps ! (i - 1) + 1) @ ''-'' @ showInt (ps ! i) @ '' days''"
  by (simp add: buildAgingBuckets_def nth_append Let_def)

lemma buckets_over:
  "ps \<noteq> [] \<Longrightarrow> period (buildAgingBuckets ps ! (length ps + 1)) =
     ''Over '' @ showInt (last ps) @ '' days''"
  by (simp add: buildAgingBuckets_def nth_append last_conv_nth)


lemma sorted_wrt_less_nth:
  "sorted_wrt (<) (ps :: int list) \<Longrightarrow> j < i \<Longrightarrow> i < length ps \<Longrightarrow> ps ! j < ps ! i"
  by (simp add: sorted_wrt_iff_nth_less)

lemma first_boundary_iff:
  assumes "sorted_wrt (<) (ps :: int list)" "i < length ps"
  shows "(d \<le> ps ! i \<and> (\<forall>j. 0 \<le> j \<and> j < i \<longrightarrow> ps ! j < d))
         \<longleftrightarrow> (if i = 0 then True else ps ! (i - 1) + 1 \<le> d) \<and> d \<le> ps ! i"
proof (cases "i = 0")
  case True
  then show ?thesis by simp
next
  case False
  have below: "ps ! j < d" if "ps ! (i - 1) < d" "j < i" for j
  proof (cases "j = i - 1")
    case True
    with that show ?thesis by simp
  next
    case False
    with that \<open>i \<noteq> 0\<close> have "j < i - 1" by simp
    with assms have "ps ! j < ps ! (i - 1)" by (simp add: sorted_wrt_iff_nth_less)
    with that show ?thesis by simp
  qed
  have prev: "ps ! (i - 1) < d" if "\<forall>j<i. ps ! j < d"
  proof -
    from False have "i - 1 < i" by simp
    with that show ?thesis by blast
  qed
  have "(\<forall>j<i. ps ! j < d) \<longleftrightarrow> ps ! (i - 1) < d"
    using below prev by blast
  then have "(\<forall>j<i. ps ! j < d) \<longleftrightarrow> ps ! (i - 1) + 1 \<le> d"
    by (simp add: add1_zle_eq)
  with False show ?thesis by (simp add: conj_commute)
qed

text \<open>
  C7. For a non-empty, strictly ascending list of periods the bucket assignment is a
  total partition by \<open>daysOverdue\<close>: the index is always one of the buckets built;
  \<open>daysOverdue \<le> 0\<close> is the bucket labelled Current; a positive \<open>daysOverdue\<close> is in period
  bucket \<open>i\<close> exactly when it lies between the previous boundary plus one and the boundary
  \<open>periods[i]\<close>, inclusive, and that bucket is labelled with these two numbers; a
  \<open>daysOverdue\<close> equal to a boundary is in that boundary's bucket; beyond the last
  boundary it is the bucket labelled Over.
\<close>

theorem aging_bucket_partition:
  assumes nonempty: "periods \<noteq> []" and ascending: "sorted_wrt (<) periods"
  shows "getBucketIndex d periods < length (buildAgingBuckets periods)
    \<and> (d \<le> 0 \<longrightarrow> getBucketIndex d periods = 0 \<and> bucketLabel d periods = ''Current'')
    \<and> (\<forall>i<length periods.
          (getBucketIndex d periods = i + 1
             \<longleftrightarrow> 0 < d \<and> (if i = 0 then True else periods ! (i - 1) + 1 \<le> d) \<and> d \<le> periods ! i)
          \<and> (getBucketIndex d periods = i + 1 \<longrightarrow>
               bucketLabel d periods =
                 showInt (if i = 0 then 1 else periods ! (i - 1) + 1) @ ''-''
                   @ showInt (periods ! i) @ '' days'')
          \<and> (0 < periods ! i \<longrightarrow> getBucketIndex (periods ! i) periods = i + 1))
    \<and> (0 < d \<and> last periods < d \<longrightarrow>
          getBucketIndex d periods = length periods + 1
          \<and> bucketLabel d periods = ''Over '' @ showInt (last periods) @ '' days'')"
proof (intro conjI allI impI)
  show "getBucketIndex d periods < length (buildAgingBuckets periods)"
    using bucketLoop_le [of d periods 0]
    by (simp add: getBucketIndex_def buckets_length max_def split: if_splits)
next
  assume "d \<le> 0"
  then show "getBucketIndex d periods = 0" by (simp add: getBucketIndex_def)
next
  assume "d \<le> 0"
  then show "bucketLabel d periods = ''Current''"
    by (simp add: bucketLabel_def getBucketIndex_def buckets_first)
next
  fix i assume i: "i < length periods"
  have hit: "bucketLoop d periods 0 = i + 1
               \<longleftrightarrow> d \<le> periods ! i \<and> (\<forall>j. 0 \<le> j \<and> j < i \<longrightarrow> periods ! j < d)"
    using bucketLoop_hit [of 0 i periods d] bucketLoop_result [of d periods 0 i] i by blast
  show "getBucketIndex d periods = i + 1
          \<longleftrightarrow> 0 < d \<and> (if i = 0 then True else periods ! (i - 1) + 1 \<le> d) \<and> d \<le> periods ! i"
    using hit first_boundary_iff [OF ascending i, of d]
    by (cases "d \<le> 0") (simp_all add: getBucketIndex_def)
next
  fix i assume i: "i < length periods" and "getBucketIndex d periods = i + 1"
  then show "bucketLabel d periods =
               showInt (if i = 0 then 1 else periods ! (i - 1) + 1) @ ''-''
                 @ showInt (periods ! i) @ '' days''"
    using buckets_range [of i periods] by (simp add: bucketLabel_def)
next
  fix i assume i: "i < length periods" and pos: "0 < periods ! i"
  have "\<forall>j. 0 \<le> j \<and> j < i \<longrightarrow> periods ! j < periods ! i"
    using ascending i by (simp add: sorted_wrt_iff_nth_less)
  then have "bucketLoop (periods ! i) periods 0 = i + 1"
    using bucketLoop_hit [of 0 i periods "periods ! i"] i by simp
  with pos show "getBucketIndex (periods ! i) periods = i + 1"
    by (simp add: getBucketIndex_def)
next
  assume beyond: "0 < d \<and> last periods < d"
  have "periods ! j < d" if "j < length periods" for j
  proof (cases "j = length periods - 1")
    case True
    with beyond nonempty show ?thesis by (simp add: last_conv_nth)
  next
    case False
    with that have "j < length periods - 1" by simp
    with ascending nonempty have "periods ! j < periods ! (length periods - 1)"
      by (simp add: sorted_wrt_iff_nth_less)
    with beyond nonempty show ?thesis by (simp add: last_conv_nth)
  qed
  then have "bucketLoop d periods 0 = length periods + 1"
    using bucketLoop_miss [of 0 periods d] by simp
  with beyond show "getBucketIndex d periods = length periods + 1"
    by (simp add: getBucketIndex_def)
  with nonempty show "bucketLabel d periods = ''Over '' @ showInt (last periods) @ '' days''"
    using buckets_over [of periods] by (simp add: bucketLabel_def)
qed

theorem aging_bucket_partition_witness:
  "[30, 60, 90, 120] \<noteq> ([] :: int list) \<and> sorted_wrt (<) [30, 60, 90, 120 :: int]
   \<and> getBucketIndex 0 [30, 60, 90, 120] = 0
   \<and> getBucketIndex 60 [30, 60, 90, 120] = 2
   \<and> bucketLabel 60 [30, 60, 90, 120] = ''31-60 days''
   \<and> bucketLabel 121 [30, 60, 90, 120] = ''Over 120 days''"
proof -
  have p: "[30, 60, 90, 120] \<noteq> ([] :: int list)" "sorted_wrt (<) [30, 60, 90, 120 :: int]"
    by simp_all
  have s: "showInt 31 = ''31''" "showInt 60 = ''60''" "showInt 120 = ''120''"
    by code_simp+
  have a: "getBucketIndex 0 [30, 60, 90, 120] = 0"
    using aging_bucket_partition [OF p, of 0, THEN conjunct2, THEN conjunct1] by simp
  have b: "getBucketIndex 60 [30, 60, 90, 120] = 2
           \<and> bucketLabel 60 [30, 60, 90, 120] = ''31-60 days''"
    using aging_bucket_partition [OF p, of 60, THEN conjunct2, THEN conjunct2, THEN conjunct1,
        THEN spec, of 1]
    by (simp add: s)
  have c: "bucketLabel 121 [30, 60, 90, 120] = ''Over 120 days''"
    using aging_bucket_partition [OF p, of 121, THEN conjunct2, THEN conjunct2, THEN conjunct2]
    by (simp add: s)
  from p a b c show ?thesis by simp
qed

section \<open>Balances and reversal\<close>

lemma sum_concat_filter:
  "sum_list (map f (concat (map (\<lambda>e. filter lineP (g e)) (filter entryP es)))) =
     (\<Sum>e\<leftarrow>es. if entryP e then (\<Sum>l\<leftarrow>g e. if lineP l then f l else 0) else 0)"
  for f :: "'l \<Rightarrow> rat"
  by (induction es) (simp_all add: sum_list_map_filter')

lemma sum_journalLinesWhere:
  "sum_list (map f (journalLinesWhere db lineP entryP)) =
     (\<Sum>e\<leftarrow>journalEntryRows db.
        if entryP e then (\<Sum>l\<leftarrow>lines e. if lineP l then f l else 0) else 0)"
  for f :: "JournalLine \<Rightarrow> rat"
  unfolding journalLinesWhere_def by (rule sum_concat_filter)





lemma balance_code_form:
  "calculateAccountBalanceAsOf db aid t d =
     (case findUniqueAccount db aid of Some a \<Rightarrow> openingBalance a | None \<Rightarrow> 0) +
     (if t \<in> set [ASSET, EXPENSE]
      then (\<Sum>e\<leftarrow>journalEntryRows db. if isPosted e \<and> date e \<le> d then entryPart debit aid e else 0)
         - (\<Sum>e\<leftarrow>journalEntryRows db. if isPosted e \<and> date e \<le> d then entryPart credit aid e else 0)
      else (\<Sum>e\<leftarrow>journalEntryRows db. if isPosted e \<and> date e \<le> d then entryPart credit aid e else 0)
         - (\<Sum>e\<leftarrow>journalEntryRows db. if isPosted e \<and> date e \<le> d then entryPart debit aid e else 0))"
  unfolding entryPart_def
  by (simp add: calculateAccountBalanceAsOf_def Let_def sum_journalLinesWhere)







lemma exLedger1_voided:
  "voidJournalEntry exLedger1 ''t1'' ''e1'' = (Inr (), exLedgerVoided)"
  by (simp add: voidJournalEntry_def findEntry_def exLedger1_def exLedgerVoided_def exSaleEntry_def)

lemma show_1: "showInt 1 = ''1''"
  by code_simp


lemma exLedgerVoided_reversed:
  "reverseJournalEntry exLedgerVoided ''t1'' ''u1'' ''e1'' (Some 1706745600000) 0 ''e2''
     = (Inr exReversal, insertEntry exLedgerVoided exReversal)"
  by (simp add: reverseJournalEntry_def findEntry_def exLedgerVoided_def exSaleEntry_def
        exReversal_def nextEntryNumber_def lastEntryNumber_def show_1 swapLine_def mkLine_def
        isPosted_default_def isAdjusting_default_def Let_def)



lemma findUniqueAccount_entries [simp]:
  "findUniqueAccount (db\<lparr>journalEntryRows := es\<rparr>) aid = findUniqueAccount db aid"
  by (simp add: findUniqueAccount_def)

lemma balance_insertEntry:
  "calculateAccountBalanceAsOf (insertEntry db R) aid t d =
     calculateAccountBalanceAsOf db aid t d
       + (if isPosted R \<and> date R \<le> d then signedPart t aid R else 0)"
  by (simp add: balance_code_form insertEntry_def signedPart_def)



lemma entryPart_swapped:
  "lines R = map swapLine (lines E) \<Longrightarrow>
     entryPart debit aid R = entryPart credit aid E \<and> entryPart credit aid R = entryPart debit aid E"
  by (simp add: entryPart_def swapLine_def comp_def cong: if_cong)

lemma signedPart_swapped:
  "lines R = map swapLine (lines E) \<Longrightarrow> signedPart t aid R = - signedPart t aid E"
  by (simp add: signedPart_def entryPart_swapped)

lemma findEntry_in_rows:
  "findEntry db entryId companyId = Some E \<Longrightarrow>
     E \<in> set (journalEntryRows db) \<and> entry_id E = entryId \<and> entry_companyId E = companyId"
  by (auto simp: findEntry_def find_Some_iff)

lemma reverse_found:
  assumes "findEntry db entryId companyId = Some E"
  shows "\<exists>R. reverseJournalEntry db companyId userId entryId reverseDate now newId
                = (Inr R, insertEntry db R)
             \<and> isPosted R \<and> isReversing R \<and> reversedEntryId R = Some (entry_id E)
             \<and> source R = MANUAL \<and> entry_id R = newId \<and> entry_companyId R = companyId
             \<and> date R = (case reverseDate of Some d \<Rightarrow> d | None \<Rightarrow> now)
             \<and> lines R = map swapLine (lines E)"
  using assms by (simp add: reverseJournalEntry_def Let_def isPosted_default_def)



text \<open>
  C10. \<open>reverseJournalEntry\<close> fails with NotFound exactly when the tenant has no entry
  with the given id. For every entry found, posted or voided, reversing or not, it
  succeeds and appends a reversing entry that is itself posted, so that from its date
  on every balance moves by the swapped lines of the target, also when the target is
  voided.
\<close>

theorem reverse_not_found_iff_else_posts:
  "(fst (reverseJournalEntry db companyId userId entryId reverseDate now newId)
      = Inl (NotFoundError JournalEntryNotFound)
    \<longleftrightarrow> \<not> (\<exists>e\<in>set (journalEntryRows db). entry_id e = entryId \<and> entry_companyId e = companyId))
   \<and> (\<forall>E. findEntry db entryId companyId = Some E \<longrightarrow>
         (\<exists>R. reverseJournalEntry db companyId userId entryId reverseDate now newId
                 = (Inr R, insertEntry db R)
              \<and> isPosted R \<and> isReversing R \<and> reversedEntryId R = Some (entry_id E)
              \<and> lines R = map swapLine (lines E)
              \<and> (\<forall>aid t d. date R \<le> d \<longrightarrow>
                    calculateAccountBalanceAsOf (insertEntry db R) aid t d
                      = calculateAccountBalanceAsOf db aid t d - signedPart t aid E)))"
proof (intro conjI allI impI)
  show "fst (reverseJournalEntry db companyId userId entryId reverseDate now newId)
          = Inl (NotFoundError JournalEntryNotFound)
        \<longleftrightarrow> \<not> (\<exists>e\<in>set (journalEntryRows db). entry_id e = entryId \<and> entry_companyId e = companyId)"
  proof (cases "findEntry db entryId companyId")
    case None
    then have "fst (reverseJournalEntry db companyId userId entryId reverseDate now newId)
                 = Inl (NotFoundError JournalEntryNotFound)"
      by (simp add: reverseJournalEntry_def)
    moreover from None
    have "\<not> (\<exists>e\<in>set (journalEntryRows db). entry_id e = entryId \<and> entry_companyId e = companyId)"
      by (auto simp: findEntry_def find_None_iff)
    ultimately show ?thesis by simp
  next
    case (Some E)
    with findEntry_in_rows [OF Some] show ?thesis
      by (auto simp: reverseJournalEntry_def Let_def)
  qed
next
  fix E assume found: "findEntry db entryId companyId = Some E"
  from reverse_found [OF found, of userId reverseDate now newId]
  obtain R where R: "reverseJournalEntry db companyId userId entryId reverseDate now newId
                       = (Inr R, insertEntry db R)"
      "isPosted R" "isReversing R" "reversedEntryId R = Some (entry_id E)"
      "lines R = map swapLine (lines E)"
    by blast
  have "calculateAccountBalanceAsOf (insertEntry db R) aid t d
          = calculateAccountBalanceAsOf db aid t d - signedPart t aid E"
    if "date R \<le> d" for aid t d
    using that R by (simp add: balance_insertEntry signedPart_swapped)
  with R show "\<exists>R. reverseJournalEntry db companyId userId entryId reverseDate now newId
                 = (Inr R, insertEntry db R)
              \<and> isPosted R \<and> isReversing R \<and> reversedEntryId R = Some (entry_id E)
              \<and> lines R = map swapLine (lines E)
              \<and> (\<forall>aid t d. date R \<le> d \<longrightarrow>
                    calculateAccountBalanceAsOf (insertEntry db R) aid t d
                      = calculateAccountBalanceAsOf db aid t d - signedPart t aid E)"
    by blast
qed


theorem reverse_not_found_iff_else_posts_witness:
  "findEntry exLedgerVoided ''e1'' ''t1'' = Some (exSaleEntry\<lparr>isPosted := False\<rparr>)
   \<and> reverseJournalEntry exLedgerVoided ''t1'' ''u1'' ''e1'' (Some 1706745600000) 0 ''e2''
       = (Inr exReversal, insertEntry exLedgerVoided exReversal)
   \<and> isPosted exReversal
   \<and> calculateAccountBalanceAsOf exLedgerVoided ''cash'' ASSET 1709078400000 = 1000
   \<and> calculateAccountBalanceAsOf (insertEntry exLedgerVoided exReversal) ''cash'' ASSET 1709078400000
       = 500"
proof -
  have found: "findEntry exLedgerVoided ''e1'' ''t1'' = Some (exSaleEntry\<lparr>isPosted := False\<rparr>)"
    by (simp add: findEntry_def exLedgerVoided_def exSaleEntry_def)
  have before: "calculateAccountBalanceAsOf exLedgerVoided ''cash'' ASSET 1709078400000 = 1000"
    by (simp add: calculateAccountBalanceAsOf_def journalLinesWhere_def findUniqueAccount_def
          exLedgerVoided_def exCash_def mkAccount_def exSaleEntry_def Let_def)
  have part: "signedPart ASSET ''cash'' (exSaleEntry\<lparr>isPosted := False\<rparr>) = 500"
    by (simp add: signedPart_def entryPart_def exSaleEntry_def mkLine_def)
  note t = reverse_not_found_iff_else_posts
         [of exLedgerVoided "''t1''" "''u1''" "''e1''" "Some 1706745600000" 0 "''e2''",
          THEN conjunct2, THEN spec, THEN mp, OF found]
  from t obtain R where R:
      "reverseJournalEntry exLedgerVoided ''t1'' ''u1'' ''e1'' (Some 1706745600000) 0 ''e2''
         = (Inr R, insertEntry exLedgerVoided R)"
      "isPosted R"
      "\<forall>aid t d. date R \<le> d \<longrightarrow>
         calculateAccountBalanceAsOf (insertEntry exLedgerVoided R) aid t d
           = calculateAccountBalanceAsOf exLedgerVoided aid t d
               - signedPart t aid (exSaleEntry\<lparr>isPosted := False\<rparr>)"
    by (elim exE conjE) (rule that)
  from R(1) have eq: "R = exReversal"
    unfolding exLedgerVoided_reversed by simp
  have "date exReversal \<le> 1709078400000" by (simp add: exReversal_def)
  from R(3) [unfolded eq, THEN spec [where x = "''cash''"], THEN spec [where x = ASSET],
              THEN spec [where x = 1709078400000]] this
  have "calculateAccountBalanceAsOf (insertEntry exLedgerVoided exReversal) ''cash'' ASSET
          1709078400000
        = calculateAccountBalanceAsOf exLedgerVoided ''cash'' ASSET 1709078400000
            - signedPart ASSET ''cash'' (exSaleEntry\<lparr>isPosted := False\<rparr>)"
    by (rule mp)
  then have after: "calculateAccountBalanceAsOf (insertEntry exLedgerVoided exReversal) ''cash'' ASSET
          1709078400000 = 500"
    by (simp only: before part)
  have "isPosted exReversal" using R(2) eq by simp
  with found exLedgerVoided_reversed before after show ?thesis by (intro conjI)

qed


section \<open>System accounts\<close>







section \<open>Order of the posting checks\<close>















section \<open>The circular-reference check\<close>

















section \<open>Trial balance\<close>

































section \<open>Balance sheet\<close>





















end
